theory Spec2Isabelle
  imports Main
begin

section \<open>tsk_semaphore.c: a counting semaphore over two native primitives\<close>

text \<open>
  The source file has one body per operation with two preprocessor branches:
  \<^verbatim>\<open>#if TSK_UNDER_WINDOWS\<close> (a kernel semaphore object behind a \<^verbatim>\<open>HANDLE\<close>) and
  \<^verbatim>\<open>#else\<close> (a POSIX unnamed semaphore behind a heap-allocated wrapper). The model keeps
  both branches and selects one with a \<open>platform\<close> argument.

  Pointers are addresses, \<open>0\<close> being the null pointer. The C \<^verbatim>\<open>int\<close> results only
  take the values \<open>0\<close>, \<open>-1\<close> and \<open>EINVAL\<close>, so they are modelled as \<open>int\<close>.
\<close>

subsection \<open>Data model\<close>

type_synonym addr = nat

datatype platform = Windows | Posix

text \<open>A native semaphore object: its current count and the largest count it accepts.\<close>

record sem_obj =
  count :: nat
  maxcount :: nat

text \<open>Every call that leaves the translation unit, in the order it was made.\<close>

datatype pcall =
    CallCreateSemaphore nat nat
  | CallTskCalloc nat
  | CallSemInit addr int nat
  | CallFree addr
  | CallReleaseSemaphore addr nat
  | CallSemPost addr
  | CallWaitForSingleObject addr
  | CallSemWait addr
  | CallCloseHandle addr
  | CallSemDestroy addr

text \<open>Diagnostics written through \<^verbatim>\<open>TSK_DEBUG_ERROR\<close> and \<^verbatim>\<open>TSK_DEBUG_WARN\<close>.\<close>

datatype diag = DebugError string | DebugWarn string

text \<open>What an observer of the process sees, in order: outgoing calls and diagnostics.\<close>

datatype event = Call pcall | Log diag

text \<open>
  The state the four operations run against.
  \<^item> \<open>errno\<close>: the calling thread's \<^verbatim>\<open>errno\<close>.
  \<^item> \<open>sems\<close>: the live native semaphore objects, by handle.
  \<^item> \<open>heap\<close>: the blocks handed out by the allocator and not yet freed.
  \<^item> \<open>slots\<close>: the caller's pointer-sized storage cells; \<^verbatim>\<open>*handle\<close> in
    \<^verbatim>\<open>tsk_semaphore_destroy\<close> reads and writes one of them.
  \<^item> \<open>trace\<close>: the outgoing calls and the diagnostics so far, oldest first.
  \<^item> \<open>next_token\<close>: what the next allocation (\<^verbatim>\<open>tsk_calloc\<close>, \<^verbatim>\<open>CreateSemaphore\<close>)
    hands out; \<open>0\<close> when the platform is out of memory or objects.
  \<^item> \<open>init_failure\<close>: \<open>Some e\<close> when the next \<^verbatim>\<open>sem_init\<close> is going to fail with
    \<^verbatim>\<open>errno\<close> \<open>e\<close>.
  \<^item> \<open>pending_signals\<close>: how many signal deliveries are still to come, each of which
    makes one \<^verbatim>\<open>sem_wait\<close> call return early with \<^verbatim>\<open>EINTR\<close>.
\<close>

record world =
  errno :: int
  sems :: "addr \<rightharpoonup> sem_obj"
  heap :: "addr set"
  slots :: "addr \<Rightarrow> addr"
  trace :: "event list"
  next_token :: addr
  init_failure :: "int option"
  pending_signals :: nat

text \<open>
  How a call ends: it returns a value, it never returns because the thread stays blocked
  in the native wait, or it hands a native function a pointer that the function
  dereferences and that is null or does not point to an object of the expected kind.
  The last is undefined behaviour in C; the model stops the run there and says nothing
  about what follows.
\<close>

datatype 'a outcome = Returns 'a world | Blocked world | Fault world

fun world_of :: "'a outcome \<Rightarrow> world" where
  "world_of (Returns _ w) = w"
| "world_of (Blocked w) = w"
| "world_of (Fault w) = w"

definition and_then :: "'a outcome \<Rightarrow> ('a \<Rightarrow> world \<Rightarrow> 'b outcome) \<Rightarrow> 'b outcome" where
  "and_then m k = (case m of Returns r w \<Rightarrow> k r w | Blocked w \<Rightarrow> Blocked w | Fault w \<Rightarrow> Fault w)"

subsection \<open>Constants of the system headers\<close>

text \<open>
  \<^verbatim>\<open><errno.h>\<close>, \<^verbatim>\<open><limits.h>\<close>, \<^verbatim>\<open><pthread.h>\<close> and \<^verbatim>\<open><windows.h>\<close> are not part
  of the repository. The values are those of Linux and of the Windows SDK; ISO C only
  requires the \<^verbatim>\<open>errno\<close> constants to be positive and distinct.
\<close>

definition EINTR :: int where "EINTR = 4"
definition EINVAL :: int where "EINVAL = 22"
definition EOVERFLOW :: int where "EOVERFLOW = 75"
definition SEM_VALUE_MAX :: nat where "SEM_VALUE_MAX = 0x7FFFFFFF"
definition PTHREAD_PROCESS_PRIVATE :: int where "PTHREAD_PROCESS_PRIVATE = 0"
definition WAIT_OBJECT_0 :: nat where "WAIT_OBJECT_0 = 0"
definition WAIT_FAILED :: nat where "WAIT_FAILED = 0xFFFFFFFF"

definition record_call :: "pcall \<Rightarrow> world \<Rightarrow> world" where
  "record_call c w = w\<lparr>trace := trace w @ [Call c]\<rparr>"

subsection \<open>Collaborators declared in tsk_debug.h and tsk_memory.h\<close>

text \<open>
  Modelled from the spec: the logger behind \<^verbatim>\<open>TSK_DEBUG_ERROR\<close> and \<^verbatim>\<open>TSK_DEBUG_WARN\<close>
  (tsk_debug.h is not among the sources). It is "a diagnostic sink accepting severity
  and a formatted message, purely observational": it appends to the trace and
  touches nothing else. The format arguments are not kept.
\<close>

definition TSK_DEBUG_ERROR :: "string \<Rightarrow> world \<Rightarrow> world" where
  "TSK_DEBUG_ERROR msg w = w\<lparr>trace := trace w @ [Log (DebugError msg)]\<rparr>"

definition TSK_DEBUG_WARN :: "string \<Rightarrow> world \<Rightarrow> world" where
  "TSK_DEBUG_WARN msg w = w\<lparr>trace := trace w @ [Log (DebugWarn msg)]\<rparr>"

text \<open>
  Modelled from the spec: \<^verbatim>\<open>tsk_calloc\<close> (tsk_memory.c is not among the sources), "a
  zero-initializing allocation function taking an element count and element size,
  returning either a zeroed memory block or an absence indicator on exhaustion". The
  element size \<^verbatim>\<open>sizeof(SEMAPHORE_T)\<close> is a matter of memory layout and is left out.
\<close>

definition tsk_calloc :: "nat \<Rightarrow> world \<Rightarrow> addr outcome" where
  "tsk_calloc num w =
    (let w1 = record_call (CallTskCalloc num) w; p = next_token w1
     in if p = 0 then Returns 0 w1 else Returns p (w1\<lparr>heap := insert p (heap w1)\<rparr>))"

text \<open>
  The C library's \<^verbatim>\<open>free\<close>, which both release helpers end in. The model tracks
  which blocks are on the heap, not their contents; a block that \<^verbatim>\<open>free\<close> is given is
  off the heap afterwards.
\<close>

definition free_block :: "addr \<Rightarrow> world \<Rightarrow> world" where
  "free_block p w = (record_call (CallFree p) w)\<lparr>heap := heap w - {p}\<rparr>"

text \<open>
  Modelled from the spec: \<^verbatim>\<open>tsk_free\<close> (tsk_memory.c is not among the sources). It is
  called with the address of a pointer cell, \<^verbatim>\<open>tsk_free(handle)\<close> with
  \<^verbatim>\<open>handle : tsk_semaphore_handle_t**\<close>; it releases the block the cell points to and
  "clears the caller's handle reference to a null sentinel". A null address or a null
  cell is left alone.
\<close>

definition tsk_free :: "addr \<Rightarrow> world \<Rightarrow> world" where
  "tsk_free ptr w =
    (if ptr \<noteq> 0 \<and> slots w ptr \<noteq> 0
     then (let w1 = free_block (slots w ptr) w in w1\<lparr>slots := (slots w1)(ptr := 0)\<rparr>)
     else w)"

text \<open>
  Modelled from the spec: the macro \<^verbatim>\<open>TSK_FREE(ptr)\<close> (tsk_memory.h is not among the
  sources), applied in \<^verbatim>\<open>tsk_semaphore_create\<close> to the local variable \<^verbatim>\<open>handle\<close>: "the
  partially constructed state is released before reporting failure". It is
  \<^verbatim>\<open>tsk_free\<close> on the address of the variable; the model returns the variable's new
  value.
\<close>

definition TSK_FREE :: "addr \<Rightarrow> world \<Rightarrow> addr \<times> world" where
  "TSK_FREE p w = (if p \<noteq> 0 then (0, free_block p w) else (p, w))"

subsection \<open>The native primitives\<close>

text \<open>
  POSIX unnamed semaphores. Each function takes a \<^verbatim>\<open>sem_t*\<close> and reads or writes the
  object behind it, so a null argument is a fault. A call that succeeds leaves
  \<^verbatim>\<open>errno\<close> as it found it; a call that fails returns \<open>-1\<close> and sets it.

  \<^verbatim>\<open>sem_post\<close> and \<^verbatim>\<open>sem_wait\<close> do not check that their argument is an initialised
  semaphore: the standard only says they may, and the common C libraries work on
  whatever memory they are given. Handing them an address that holds no live semaphore
  is therefore a fault as well. On a live semaphore \<^verbatim>\<open>sem_post\<close> fails only when the
  count is at its maximum (\<^verbatim>\<open>EOVERFLOW\<close>).
\<close>

definition sem_init :: "addr \<Rightarrow> int \<Rightarrow> nat \<Rightarrow> world \<Rightarrow> int outcome" where
  "sem_init s pshared val w =
    (let w1 = record_call (CallSemInit s pshared val) w
     in if s = 0 then Fault w1
        else (case init_failure w1 of
                Some e \<Rightarrow> Returns (- 1) (w1\<lparr>errno := e\<rparr>)
              | None \<Rightarrow>
                  if SEM_VALUE_MAX < val then Returns (- 1) (w1\<lparr>errno := EINVAL\<rparr>)
                  else Returns 0
                    (w1\<lparr>sems := (sems w1)(s \<mapsto> \<lparr>count = val, maxcount = SEM_VALUE_MAX\<rparr>)\<rparr>)))"

definition sem_post :: "addr \<Rightarrow> world \<Rightarrow> int outcome" where
  "sem_post s w =
    (let w1 = record_call (CallSemPost s) w
     in if s = 0 then Fault w1
        else (case sems w1 s of
                None \<Rightarrow> Fault w1
              | Some c \<Rightarrow>
                  if count c < maxcount c
                  then Returns 0 (w1\<lparr>sems := (sems w1)(s \<mapsto> c\<lparr>count := count c + 1\<rparr>)\<rparr>)
                  else Returns (- 1) (w1\<lparr>errno := EOVERFLOW\<rparr>)))"

text \<open>
  \<^verbatim>\<open>sem_wait\<close> on a live semaphore fails only with \<^verbatim>\<open>EINTR\<close>, when a signal handler
  interrupts it. Whether and when that happens is the environment's choice, given by
  \<open>pending_signals\<close>: each pending signal interrupts one call. The standard allows the
  interruption on any call; a C library that takes a positive count without sleeping is
  covered by the worlds in which signals are pending only while the count is zero.
  Without a pending signal a positive count is decremented, and on a zero count the
  thread stays blocked (no other thread is modelled that could post).
\<close>

definition sem_wait :: "addr \<Rightarrow> world \<Rightarrow> int outcome" where
  "sem_wait s w =
    (let w1 = record_call (CallSemWait s) w
     in if s = 0 then Fault w1
        else (case sems w1 s of
                None \<Rightarrow> Fault w1
              | Some c \<Rightarrow>
                  if 0 < pending_signals w1
                  then Returns (- 1)
                    (w1\<lparr>errno := EINTR, pending_signals := pending_signals w1 - 1\<rparr>)
                  else if 0 < count c
                  then Returns 0 (w1\<lparr>sems := (sems w1)(s \<mapsto> c\<lparr>count := count c - 1\<rparr>)\<rparr>)
                  else Blocked w1))"

text \<open>
  \<^verbatim>\<open>sem_destroy\<close> does not examine its argument either: the common C libraries
  return \<open>0\<close> without reading the object. On an address that holds no live semaphore
  it changes nothing. Its result is dropped by the only caller.
\<close>

definition sem_destroy :: "addr \<Rightarrow> world \<Rightarrow> int outcome" where
  "sem_destroy s w =
    (let w1 = record_call (CallSemDestroy s) w
     in if s = 0 then Fault w1
        else (case sems w1 s of
                None \<Rightarrow> Returns 0 w1
              | Some c \<Rightarrow> Returns 0 (w1\<lparr>sems := (sems w1)(s := None)\<rparr>)))"

text \<open>
  Win32 semaphore objects. The functions take a \<^verbatim>\<open>HANDLE\<close> by value and report an
  invalid one (null included) through their result; they do not touch \<^verbatim>\<open>errno\<close>.
  \<^verbatim>\<open>CreateSemaphore\<close> returns a null handle on failure, \<^verbatim>\<open>ReleaseSemaphore\<close> and
  \<^verbatim>\<open>CloseHandle\<close> return a \<^verbatim>\<open>BOOL\<close>, and a wait that is not alertable is not
  interrupted.
\<close>

definition CreateSemaphore :: "nat \<Rightarrow> nat \<Rightarrow> world \<Rightarrow> addr outcome" where
  "CreateSemaphore initial maximum w =
    (let w1 = record_call (CallCreateSemaphore initial maximum) w; h = next_token w1
     in if h = 0 \<or> maximum = 0 \<or> maximum < initial then Returns 0 w1
        else Returns h (w1\<lparr>sems := (sems w1)(h \<mapsto> \<lparr>count = initial, maxcount = maximum\<rparr>)\<rparr>))"

definition ReleaseSemaphore :: "addr \<Rightarrow> nat \<Rightarrow> world \<Rightarrow> bool outcome" where
  "ReleaseSemaphore h n w =
    (let w1 = record_call (CallReleaseSemaphore h n) w
     in case sems w1 h of
          None \<Rightarrow> Returns False w1
        | Some c \<Rightarrow>
            if 0 < n \<and> count c + n \<le> maxcount c
            then Returns True (w1\<lparr>sems := (sems w1)(h \<mapsto> c\<lparr>count := count c + n\<rparr>)\<rparr>)
            else Returns False w1)"

definition WaitForSingleObject :: "addr \<Rightarrow> world \<Rightarrow> nat outcome" where
  "WaitForSingleObject h w =
    (let w1 = record_call (CallWaitForSingleObject h) w
     in case sems w1 h of
          None \<Rightarrow> Returns WAIT_FAILED w1
        | Some c \<Rightarrow>
            if 0 < count c
            then Returns WAIT_OBJECT_0 (w1\<lparr>sems := (sems w1)(h \<mapsto> c\<lparr>count := count c - 1\<rparr>)\<rparr>)
            else Blocked w1)"

definition CloseHandle :: "addr \<Rightarrow> world \<Rightarrow> bool outcome" where
  "CloseHandle h w =
    (let w1 = record_call (CallCloseHandle h) w
     in case sems w1 h of
          None \<Rightarrow> Returns False w1
        | Some c \<Rightarrow> Returns True (w1\<lparr>sems := (sems w1)(h := None)\<rparr>))"

subsection \<open>tsk_semaphore_create\<close>

text \<open>
  \<^verbatim>\<open>
  SEMAPHORE_T handle = 0;
  #if TSK_UNDER_WINDOWS
      handle = CreateSemaphore(NULL, 0, 0x7FFFFFFF, NULL);
  #else
      handle = tsk_calloc(1, sizeof(SEMAPHORE_T));
      if(sem_init((SEMAPHORE_T)handle, PTHREAD_PROCESS_PRIVATE, 0)) {
          TSK_FREE(handle);
          TSK_DEBUG_ERROR("Failed to initialize the new semaphore.");
      }
  #endif
      if(!handle) { TSK_DEBUG_ERROR("Failed to create new mutex."); }
      return handle;
  \<close>
\<close>

definition create_epilogue :: "addr \<Rightarrow> world \<Rightarrow> addr outcome" where
  "create_epilogue handle w =
    (if handle = 0 then Returns handle (TSK_DEBUG_ERROR ''Failed to create new mutex.'' w)
     else Returns handle w)"

definition tsk_semaphore_create :: "platform \<Rightarrow> world \<Rightarrow> addr outcome" where
  "tsk_semaphore_create p w =
    (case p of
       Windows \<Rightarrow> and_then (CreateSemaphore 0 0x7FFFFFFF w) create_epilogue
     | Posix \<Rightarrow>
         and_then (tsk_calloc 1 w) (\<lambda>handle w1.
         and_then (sem_init handle PTHREAD_PROCESS_PRIVATE 0 w1) (\<lambda>r w2.
           if r \<noteq> 0
           then (case TSK_FREE handle w2 of
                   (handle', w3) \<Rightarrow>
                     create_epilogue handle'
                       (TSK_DEBUG_ERROR ''Failed to initialize the new semaphore.'' w3))
           else create_epilogue handle w2)))"

subsection \<open>tsk_semaphore_increment\<close>

text \<open>
  \<^verbatim>\<open>
  int ret = EINVAL;
  if(handle) {
  #if TSK_UNDER_WINDOWS
      if((ret = ReleaseSemaphore((SEMAPHORE_T)handle, 1L, 0L) ? 0 : -1))
  #else
      if(ret = sem_post((SEMAPHORE_T)handle))
  #endif
      { TSK_DEBUG_ERROR("sem_post function failed: %d", ret); }
  }
  return ret;
  \<close>
\<close>

definition increment_epilogue :: "int \<Rightarrow> world \<Rightarrow> int outcome" where
  "increment_epilogue ret w =
    (if ret \<noteq> 0 then Returns ret (TSK_DEBUG_ERROR ''sem_post function failed: %d'' w)
     else Returns ret w)"

definition tsk_semaphore_increment :: "platform \<Rightarrow> addr \<Rightarrow> world \<Rightarrow> int outcome" where
  "tsk_semaphore_increment p handle w =
    (if handle \<noteq> 0
     then (case p of
             Windows \<Rightarrow>
               and_then (ReleaseSemaphore handle 1 w)
                 (\<lambda>ok. increment_epilogue (if ok then 0 else - 1))
           | Posix \<Rightarrow> and_then (sem_post handle w) increment_epilogue)
     else Returns EINVAL w)"

subsection \<open>tsk_semaphore_decrement\<close>

text \<open>
  \<^verbatim>\<open>
  int ret = EINVAL;
  if(handle) {
  #if TSK_UNDER_WINDOWS
      ret = (WaitForSingleObject((SEMAPHORE_T)handle, INFINITE) == WAIT_OBJECT_0 ? 0 : -1);
      if(ret) TSK_DEBUG_ERROR("sem_wait function failed: %d", ret);
  #else
      do { ret = sem_wait((SEMAPHORE_T)handle); } while ( errno == EINTR );
      if(ret) TSK_DEBUG_ERROR("sem_wait function failed: %d", errno);
  #endif
  }
  return ret;
  \<close>
  The loop condition reads \<^verbatim>\<open>errno\<close> alone. Each turn of the loop either consumes a
  pending signal or a unit of the count, or leaves the loop, or blocks, which bounds the
  number of turns.
\<close>

definition loop_budget :: "addr \<Rightarrow> world \<Rightarrow> nat" where
  "loop_budget s w = pending_signals w + (case sems w s of None \<Rightarrow> 0 | Some c \<Rightarrow> count c)"

function sem_wait_loop :: "addr \<Rightarrow> world \<Rightarrow> int outcome" where
  "sem_wait_loop s w =
    (case sem_wait s w of
       Returns ret w1 \<Rightarrow> if errno w1 = EINTR then sem_wait_loop s w1 else Returns ret w1
     | Blocked w1 \<Rightarrow> Blocked w1
     | Fault w1 \<Rightarrow> Fault w1)"
  by pat_completeness auto
termination
proof (relation "measure (\<lambda>(s, w). loop_budget s w)")
  show "wf (measure (\<lambda>(s, w). loop_budget s w))" by simp
next
  fix s w ret w1
  assume "sem_wait s w = Returns ret w1" and "errno w1 = EINTR"
  then show "((s, w1), (s, w)) \<in> measure (\<lambda>(s, w). loop_budget s w)"
    by (auto simp: sem_wait_def loop_budget_def record_call_def Let_def EINTR_def EINVAL_def
        split: if_splits option.splits)
qed

declare sem_wait_loop.simps [simp del]

definition decrement_epilogue :: "int \<Rightarrow> world \<Rightarrow> int outcome" where
  "decrement_epilogue ret w =
    (if ret \<noteq> 0 then Returns ret (TSK_DEBUG_ERROR ''sem_wait function failed: %d'' w)
     else Returns ret w)"

definition tsk_semaphore_decrement :: "platform \<Rightarrow> addr \<Rightarrow> world \<Rightarrow> int outcome" where
  "tsk_semaphore_decrement p handle w =
    (if handle \<noteq> 0
     then (case p of
             Windows \<Rightarrow>
               and_then (WaitForSingleObject handle w)
                 (\<lambda>r. decrement_epilogue (if r = WAIT_OBJECT_0 then 0 else - 1))
           | Posix \<Rightarrow> and_then (sem_wait_loop handle w) decrement_epilogue)
     else Returns EINVAL w)"

subsection \<open>tsk_semaphore_destroy\<close>

text \<open>
  \<^verbatim>\<open>
  if(handle && *handle) {
  #if TSK_UNDER_WINDOWS
      CloseHandle((SEMAPHORE_T)*handle);
      *handle = 0;
  #else
      sem_destroy((SEMAPHORE_T)*handle);
      tsk_free(handle);
  #endif
  } else {
      TSK_DEBUG_WARN("Cannot free an uninitialized semaphore object");
  }
  \<close>
  The argument is the address of the caller's handle cell. The results of
  \<^verbatim>\<open>CloseHandle\<close> and \<^verbatim>\<open>sem_destroy\<close> are dropped.
\<close>

definition tsk_semaphore_destroy :: "platform \<Rightarrow> addr \<Rightarrow> world \<Rightarrow> unit outcome" where
  "tsk_semaphore_destroy p handle w =
    (if handle \<noteq> 0 \<and> slots w handle \<noteq> 0
     then (case p of
             Windows \<Rightarrow>
               and_then (CloseHandle (slots w handle) w)
                 (\<lambda>_ w1. Returns () (w1\<lparr>slots := (slots w1)(handle := 0)\<rparr>))
           | Posix \<Rightarrow>
               and_then (sem_destroy (slots w handle) w)
                 (\<lambda>_ w1. Returns () (tsk_free handle w1)))
     else Returns () (TSK_DEBUG_WARN ''Cannot free an uninitialized semaphore object'' w))"

subsection \<open>Client scenarios\<close>

text \<open>
  A caller that issues the same operation \<open>n\<close> times in a row and collects the results;
  it stops where a call does not return.
\<close>

fun repeat_call :: "(world \<Rightarrow> int outcome) \<Rightarrow> nat \<Rightarrow> world \<Rightarrow> int list outcome" where
  "repeat_call f 0 w = Returns [] w"
| "repeat_call f (Suc n) w =
     and_then (f w) (\<lambda>r w1. and_then (repeat_call f n w1) (\<lambda>rs. Returns (r # rs)))"

text \<open>
  A process that has not created anything yet: the allocator is about to hand out
  address 7, nothing is going to fail, no signal is pending.
\<close>

definition idle_world :: world where
  "idle_world =
    \<lparr>errno = 0, sems = Map.empty, heap = {}, slots = (\<lambda>_. 0), trace = [],
     next_token = 7, init_failure = None, pending_signals = 0\<rparr>"

text \<open>
  A process on the POSIX build that holds one semaphore with \<open>n\<close> permits: handle 7,
  stored in the caller's cell at address 3.
\<close>

definition posix_world :: "nat \<Rightarrow> world" where
  "posix_world n =
    \<lparr>errno = 0, sems = [7 \<mapsto> \<lparr>count = n, maxcount = SEM_VALUE_MAX\<rparr>], heap = {7},
     slots = (\<lambda>_. 0)(3 := 7), trace = [],
     next_token = 8, init_failure = None, pending_signals = 0\<rparr>"

text \<open>The same on the Windows build, where the handle is the kernel object's own.\<close>

definition windows_world :: "nat \<Rightarrow> world" where
  "windows_world n =
    \<lparr>errno = 0, sems = [7 \<mapsto> \<lparr>count = n, maxcount = 0x7FFFFFFF\<rparr>], heap = {},
     slots = (\<lambda>_. 0)(3 := 7), trace = [],
     next_token = 8, init_failure = None, pending_signals = 0\<rparr>"

text \<open>What a call handed back, if it returned at all.\<close>

fun result_of :: "'a outcome \<Rightarrow> 'a option" where
  "result_of (Returns r _) = Some r"
| "result_of (Blocked _) = None"
| "result_of (Fault _) = None"

section \<open>Properties\<close>

subsection \<open>Unfolding sets and sequencing\<close>

lemmas header_consts = EINTR_def EINVAL_def EOVERFLOW_def SEM_VALUE_MAX_def
  PTHREAD_PROCESS_PRIVATE_def WAIT_OBJECT_0_def WAIT_FAILED_def

lemmas collaborator_defs = record_call_def TSK_DEBUG_ERROR_def TSK_DEBUG_WARN_def
  tsk_calloc_def free_block_def tsk_free_def TSK_FREE_def

lemmas scenario_defs = idle_world_def posix_world_def windows_world_def

lemma and_then_Returns [simp]: "and_then (Returns r w) k = k r w"
  by (simp add: and_then_def)

lemma and_then_Blocked [simp]: "and_then (Blocked w) k = Blocked w"
  by (simp add: and_then_def)

lemma and_then_Fault [simp]: "and_then (Fault w) k = Fault w"
  by (simp add: and_then_def)

subsection \<open>Null handles\<close>

text \<open>
  Claim C2. Signal and wait on a null handle return \<open>EINVAL\<close>, which is not the success
  value \<open>0\<close>. The call returns (it neither blocks nor faults) and leaves the whole state
  as it was; in particular the trace is unchanged, so no native call was made and nothing
  was dereferenced.
\<close>

theorem null_handle_is_invalid_argument:
  "tsk_semaphore_increment p 0 w = Returns EINVAL w \<and>
   tsk_semaphore_decrement p 0 w = Returns EINVAL w \<and>
   trace (world_of (tsk_semaphore_increment p 0 w)) = trace w \<and>
   trace (world_of (tsk_semaphore_decrement p 0 w)) = trace w \<and>
   EINVAL \<noteq> 0"
  by (simp add: tsk_semaphore_increment_def tsk_semaphore_decrement_def EINVAL_def)

theorem null_handle_is_invalid_argument_witness:
  "result_of (tsk_semaphore_increment Posix 0 (posix_world 1)) = Some EINVAL \<and>
   result_of (tsk_semaphore_decrement Windows 0 (windows_world 0)) = Some EINVAL \<and>
   trace (world_of (tsk_semaphore_decrement Windows 0 (windows_world 0))) = []"
  using null_handle_is_invalid_argument [of Posix "posix_world 1"]
    null_handle_is_invalid_argument [of Windows "windows_world 0"]
  by (simp add: windows_world_def)

subsection \<open>The caller's handle storage\<close>

lemma sem_wait_slots: "slots (world_of (sem_wait s w)) = slots w"
  by (simp add: sem_wait_def record_call_def Let_def split: option.splits)

lemma sem_wait_loop_slots: "slots (world_of (sem_wait_loop s w)) = slots w"
proof (induction s w rule: sem_wait_loop.induct)
  case (1 s w)
  show ?case
  proof (cases "sem_wait s w")
    case (Returns ret w1)
    have same: "slots w1 = slots w"
      using sem_wait_slots [of s w] Returns by simp
    show ?thesis
    proof (cases "errno w1 = EINTR")
      case True
      with "1.IH" [OF Returns True] Returns same show ?thesis
        by (subst sem_wait_loop.simps) simp
    next
      case False
      with Returns same show ?thesis
        by (subst sem_wait_loop.simps) simp
    qed
  next
    case (Blocked w1)
    with sem_wait_slots [of s w] show ?thesis
      by (subst sem_wait_loop.simps) simp
  next
    case (Fault w1)
    with sem_wait_slots [of s w] show ?thesis
      by (subst sem_wait_loop.simps) simp
  qed
qed

lemma increment_slots: "slots (world_of (tsk_semaphore_increment p h w)) = slots w"
  by (cases p)
     (simp_all add: tsk_semaphore_increment_def increment_epilogue_def sem_post_def
        ReleaseSemaphore_def record_call_def TSK_DEBUG_ERROR_def Let_def
        split: option.splits)

lemma decrement_slots: "slots (world_of (tsk_semaphore_decrement p h w)) = slots w"
proof (cases p)
  case Windows
  then show ?thesis
    by (simp add: tsk_semaphore_decrement_def decrement_epilogue_def WaitForSingleObject_def
        record_call_def TSK_DEBUG_ERROR_def Let_def header_consts split: option.splits)
next
  case Posix
  show ?thesis
  proof (cases "sem_wait_loop h w")
    case (Returns r w1)
    with Posix sem_wait_loop_slots [of h w] show ?thesis
      by (simp add: tsk_semaphore_decrement_def decrement_epilogue_def TSK_DEBUG_ERROR_def)
  next
    case (Blocked w1)
    with Posix sem_wait_loop_slots [of h w] show ?thesis
      by (simp add: tsk_semaphore_decrement_def)
  next
    case (Fault w1)
    with Posix sem_wait_loop_slots [of h w] show ?thesis
      by (simp add: tsk_semaphore_decrement_def)
  qed
qed

lemma create_slots: "slots (world_of (tsk_semaphore_create p w)) = slots w"
  by (cases p)
     (simp_all add: tsk_semaphore_create_def create_epilogue_def sem_init_def
        CreateSemaphore_def collaborator_defs Let_def split: option.splits)

text \<open>
  Claim C8. Signal and wait leave every handle cell of the caller as it was, however the
  call ends (returning success or failure, blocking, or faulting); so does create, which
  hands its handle back as a result. Writing to a cell is left to destroy.
\<close>

theorem signal_and_wait_keep_handle_storage:
  "slots (world_of (tsk_semaphore_increment p h w)) = slots w \<and>
   slots (world_of (tsk_semaphore_decrement p h w)) = slots w \<and>
   slots (world_of (tsk_semaphore_create p w)) = slots w"
  by (simp add: increment_slots decrement_slots create_slots)

theorem signal_and_wait_keep_handle_storage_witness:
  "slots (world_of (tsk_semaphore_increment Posix 7 (posix_world 1))) 3 = 7 \<and>
   slots (world_of (tsk_semaphore_decrement Posix 7 (posix_world 0))) 3 = 7"
  using signal_and_wait_keep_handle_storage [of Posix 7 "posix_world 1"]
    signal_and_wait_keep_handle_storage [of Posix 7 "posix_world 0"]
  by (simp add: posix_world_def)

subsection \<open>Create\<close>

text \<open>
  Claim C3, evaluated on the code. On the POSIX build, when the allocator has nothing to
  give, create passes the null result straight to \<^verbatim>\<open>sem_init\<close>: the test of
  \<^verbatim>\<open>handle\<close> comes only after the initialisation. The trace shows the call on address
  \<open>0\<close>, and the run ends there.
\<close>

theorem create_applies_init_to_null:
  "tsk_semaphore_create Posix (idle_world\<lparr>next_token := 0\<rparr>) =
     Fault (idle_world\<lparr>next_token := 0,
              trace := [Call (CallTskCalloc 1), Call (CallSemInit 0 PTHREAD_PROCESS_PRIVATE 0)]\<rparr>)"
  by (simp add: tsk_semaphore_create_def tsk_calloc_def sem_init_def record_call_def Let_def
      idle_world_def)

text \<open>
  Claim C4. On the POSIX build, when the wrapper was allocated and \<^verbatim>\<open>sem_init\<close> then
  fails, create frees the wrapper, then writes its two diagnostics, and returns the null
  handle. The block is not on the heap afterwards, the heap is otherwise what it was, and
  no semaphore object has come to life.
\<close>

theorem failed_init_releases_wrapper:
  assumes "next_token w \<noteq> 0" and "init_failure w = Some e"
  shows "\<exists>w'. tsk_semaphore_create Posix w = Returns 0 w'
           \<and> trace w' = trace w @
               [Call (CallTskCalloc 1),
                Call (CallSemInit (next_token w) PTHREAD_PROCESS_PRIVATE 0),
                Call (CallFree (next_token w)),
                Log (DebugError ''Failed to initialize the new semaphore.''),
                Log (DebugError ''Failed to create new mutex.'')]
           \<and> next_token w \<notin> heap w'
           \<and> heap w' = heap w - {next_token w}
           \<and> sems w' = sems w"
  using assms
  by (simp add: tsk_semaphore_create_def create_epilogue_def sem_init_def collaborator_defs
      Let_def)

theorem failed_init_releases_wrapper_witness:
  "next_token (idle_world\<lparr>init_failure := Some 38\<rparr>) = 7 \<and>
   init_failure (idle_world\<lparr>init_failure := Some 38\<rparr>) = Some 38 \<and>
   result_of (tsk_semaphore_create Posix (idle_world\<lparr>init_failure := Some 38\<rparr>)) = Some 0 \<and>
   heap (world_of (tsk_semaphore_create Posix (idle_world\<lparr>init_failure := Some 38\<rparr>))) = {} \<and>
   sems (world_of (tsk_semaphore_create Posix (idle_world\<lparr>init_failure := Some 38\<rparr>))) = Map.empty"
proof -
  have tok: "next_token (idle_world\<lparr>init_failure := Some 38\<rparr>) \<noteq> 0"
    and fails: "init_failure (idle_world\<lparr>init_failure := Some 38\<rparr>) = Some 38"
    by (simp_all add: idle_world_def)
  from failed_init_releases_wrapper [OF tok fails] show ?thesis
    by (auto simp add: idle_world_def)
qed

subsection \<open>Destroy\<close>

text \<open>
  Claim C5. Destroy on a cell that holds a live handle returns with the native object
  gone from the live objects and the cell set to null. The trace gains the release call
  (\<^verbatim>\<open>CloseHandle\<close>, or \<^verbatim>\<open>sem_destroy\<close> followed by the \<^verbatim>\<open>free\<close> of the wrapper), and
  on the POSIX build the wrapper has left the heap.
\<close>

theorem destroy_releases_and_clears:
  assumes "ref \<noteq> 0" and "slots w ref = h" and "h \<noteq> 0" and "sems w h = Some c"
  shows "\<exists>w'. tsk_semaphore_destroy p ref w = Returns () w'
           \<and> sems w' h = None
           \<and> slots w' ref = 0
           \<and> (p = Posix \<longrightarrow> h \<notin> heap w')
           \<and> trace w' = trace w @
                (case p of Windows \<Rightarrow> [Call (CallCloseHandle h)]
                 | Posix \<Rightarrow> [Call (CallSemDestroy h), Call (CallFree h)])"
  using assms
  by (cases p)
     (simp_all add: tsk_semaphore_destroy_def sem_destroy_def CloseHandle_def collaborator_defs
       Let_def)

theorem destroy_releases_and_clears_witness:
  "slots (posix_world 1) 3 = 7 \<and>
   sems (posix_world 1) 7 = Some \<lparr>count = 1, maxcount = SEM_VALUE_MAX\<rparr> \<and>
   result_of (tsk_semaphore_destroy Posix 3 (posix_world 1)) = Some () \<and>
   sems (world_of (tsk_semaphore_destroy Posix 3 (posix_world 1))) 7 = None \<and>
   slots (world_of (tsk_semaphore_destroy Posix 3 (posix_world 1))) 3 = 0 \<and>
   7 \<notin> heap (world_of (tsk_semaphore_destroy Posix 3 (posix_world 1)))"
proof -
  have ref: "(3::nat) \<noteq> 0" and h: "(7::nat) \<noteq> 0" by simp_all
  have cell: "slots (posix_world 1) 3 = 7"
    and live: "sems (posix_world 1) 7 = Some \<lparr>count = 1, maxcount = SEM_VALUE_MAX\<rparr>"
    by (simp_all add: posix_world_def)
  from destroy_releases_and_clears [OF ref cell h live, of Posix] cell live
  show ?thesis by auto
qed

lemma destroy_returns: "\<exists>w'. tsk_semaphore_destroy p ref w = Returns () w'"
  by (cases p)
     (simp_all add: tsk_semaphore_destroy_def sem_destroy_def CloseHandle_def collaborator_defs
       Let_def split: option.splits)

lemma destroy_null:
  "ref = 0 \<or> slots w ref = 0 \<Longrightarrow>
   tsk_semaphore_destroy p ref w =
     Returns ()
       (w\<lparr>trace := trace w @ [Log (DebugWarn ''Cannot free an uninitialized semaphore object'')]\<rparr>)"
  by (auto simp add: tsk_semaphore_destroy_def TSK_DEBUG_WARN_def)

lemma destroy_clears_slot:
  "tsk_semaphore_destroy p ref w = Returns () w1 \<Longrightarrow> ref = 0 \<or> slots w1 ref = 0"
  by (cases p)
     (auto simp add: tsk_semaphore_destroy_def sem_destroy_def CloseHandle_def collaborator_defs
       Let_def split: option.splits if_splits)

text \<open>
  Claim C6. Destroy returns on every input; it has no result to report a failure with.
  When the reference is null or the cell it names holds null, the state after the call
  is the state before it with one warning appended to the trace: no release call, no
  change to the live objects, the heap or the cells. A second destroy on the same cell is
  always in that case, whatever the first one found.
\<close>

theorem destroy_always_completes:
  "(\<exists>w'. tsk_semaphore_destroy p ref w = Returns () w') \<and>
   (ref = 0 \<or> slots w ref = 0 \<longrightarrow>
      tsk_semaphore_destroy p ref w =
        Returns ()
          (w\<lparr>trace := trace w @
             [Log (DebugWarn ''Cannot free an uninitialized semaphore object'')]\<rparr>)) \<and>
   (\<forall>w1. tsk_semaphore_destroy p ref w = Returns () w1 \<longrightarrow>
      tsk_semaphore_destroy p ref w1 =
        Returns ()
          (w1\<lparr>trace := trace w1 @
             [Log (DebugWarn ''Cannot free an uninitialized semaphore object'')]\<rparr>))"
proof (intro conjI allI impI)
  show "\<exists>w'. tsk_semaphore_destroy p ref w = Returns () w'"
    by (rule destroy_returns)
next
  assume "ref = 0 \<or> slots w ref = 0"
  then show "tsk_semaphore_destroy p ref w =
      Returns ()
        (w\<lparr>trace := trace w @
           [Log (DebugWarn ''Cannot free an uninitialized semaphore object'')]\<rparr>)"
    by (rule destroy_null)
next
  fix w1
  assume "tsk_semaphore_destroy p ref w = Returns () w1"
  then have "ref = 0 \<or> slots w1 ref = 0"
    by (rule destroy_clears_slot)
  then show "tsk_semaphore_destroy p ref w1 =
      Returns ()
        (w1\<lparr>trace := trace w1 @
           [Log (DebugWarn ''Cannot free an uninitialized semaphore object'')]\<rparr>)"
    by (rule destroy_null)
qed

theorem destroy_always_completes_witness:
  "slots idle_world 3 = 0 \<and>
   tsk_semaphore_destroy Windows 3 idle_world =
     Returns ()
       (idle_world\<lparr>trace :=
          [Log (DebugWarn ''Cannot free an uninitialized semaphore object'')]\<rparr>) \<and>
   tsk_semaphore_destroy Posix 0 (posix_world 1) =
     Returns ()
       ((posix_world 1)\<lparr>trace :=
          [Log (DebugWarn ''Cannot free an uninitialized semaphore object'')]\<rparr>) \<and>
   trace (world_of (tsk_semaphore_destroy Posix 3
            (world_of (tsk_semaphore_destroy Posix 3 (posix_world 1))))) =
     [Call (CallSemDestroy 7), Call (CallFree 7),
      Log (DebugWarn ''Cannot free an uninitialized semaphore object'')]"
proof -
  have first: "tsk_semaphore_destroy Posix 3 (posix_world 1) =
      Returns () (world_of (tsk_semaphore_destroy Posix 3 (posix_world 1)))"
    using destroy_returns [of Posix 3 "posix_world 1"] by auto
  have once: "trace (world_of (tsk_semaphore_destroy Posix 3 (posix_world 1))) =
      [Call (CallSemDestroy 7), Call (CallFree 7)]"
    by (simp add: tsk_semaphore_destroy_def sem_destroy_def collaborator_defs Let_def
        posix_world_def)
  from destroy_always_completes [of Posix 3 "posix_world 1"] first
  have "tsk_semaphore_destroy Posix 3 (world_of (tsk_semaphore_destroy Posix 3 (posix_world 1))) =
      Returns ()
        ((world_of (tsk_semaphore_destroy Posix 3 (posix_world 1)))
           \<lparr>trace := trace (world_of (tsk_semaphore_destroy Posix 3 (posix_world 1))) @
              [Log (DebugWarn ''Cannot free an uninitialized semaphore object'')]\<rparr>)"
    by blast
  with once have twice: "trace (world_of (tsk_semaphore_destroy Posix 3
            (world_of (tsk_semaphore_destroy Posix 3 (posix_world 1))))) =
     [Call (CallSemDestroy 7), Call (CallFree 7),
      Log (DebugWarn ''Cannot free an uninitialized semaphore object'')]"
    by simp
  from destroy_always_completes [of Windows 3 idle_world]
    destroy_always_completes [of Posix 0 "posix_world 1"] twice
  show ?thesis
    by (simp add: idle_world_def posix_world_def)
qed

subsection \<open>The retry loop of wait\<close>

lemma sem_wait_live:
  "sem_wait s w = Returns r w1 \<Longrightarrow> sems w s = Some c \<Longrightarrow>
     (\<exists>c1. sems w1 s = Some c1) \<and> (r = 0 \<or> r = - 1 \<and> errno w1 = EINTR)"
  by (auto simp add: sem_wait_def record_call_def Let_def split: if_splits)

text \<open>
  On a live semaphore the loop cannot leave with a failure: the only failure a live
  semaphore produces sets \<^verbatim>\<open>errno\<close> to \<^verbatim>\<open>EINTR\<close>, which keeps the loop going.
\<close>

lemma sem_wait_loop_live:
  "sem_wait_loop s w = Returns r w' \<Longrightarrow> sems w s = Some c \<Longrightarrow> r = 0"
proof (induction s w arbitrary: c rule: sem_wait_loop.induct)
  case (1 s w)
  show ?case
  proof (cases "sem_wait s w")
    case (Returns ret w1)
    from sem_wait_live [OF Returns "1.prems"(2)]
    obtain c1 where live: "sems w1 s = Some c1"
      and ret: "ret = 0 \<or> ret = - 1 \<and> errno w1 = EINTR" by blast
    show ?thesis
    proof (cases "errno w1 = EINTR")
      case True
      with "1.prems"(1) Returns have "sem_wait_loop s w1 = Returns r w'"
        by (subst (asm) sem_wait_loop.simps) simp
      from "1.IH" [OF Returns True this live] show ?thesis .
    next
      case False
      with "1.prems"(1) Returns have "r = ret"
        by (subst (asm) sem_wait_loop.simps) simp
      with ret False show ?thesis by simp
    qed
  next
    case (Blocked w1)
    with "1.prems"(1) show ?thesis
      by (subst (asm) sem_wait_loop.simps) simp
  next
    case (Fault w1)
    with "1.prems"(1) show ?thesis
      by (subst (asm) sem_wait_loop.simps) simp
  qed
qed

text \<open>
  Claim C9, evaluated on the code. The thread enters wait with \<^verbatim>\<open>errno\<close> still equal to
  \<^verbatim>\<open>EINTR\<close> from some earlier call; the semaphore holds one permit and no signal
  arrives. The first \<^verbatim>\<open>sem_wait\<close> succeeds and takes the permit, leaving \<^verbatim>\<open>errno\<close>
  alone; the loop condition \<^verbatim>\<open>errno == EINTR\<close> still holds, so \<^verbatim>\<open>sem_wait\<close> is called
  a second time, on a count of zero, and the thread stays blocked there.
\<close>

theorem stale_eintr_waits_again:
  "sem_wait 7 ((posix_world 1)\<lparr>errno := EINTR\<rparr>) =
     Returns 0 ((posix_world 0)\<lparr>errno := EINTR, trace := [Call (CallSemWait 7)]\<rparr>) \<and>
   tsk_semaphore_decrement Posix 7 ((posix_world 1)\<lparr>errno := EINTR\<rparr>) =
     Blocked ((posix_world 0)\<lparr>errno := EINTR,
        trace := [Call (CallSemWait 7), Call (CallSemWait 7)]\<rparr>)"
  by (simp add: tsk_semaphore_decrement_def decrement_epilogue_def sem_wait_loop.simps
      sem_wait_def record_call_def Let_def posix_world_def EINTR_def)

text \<open>
  Claim C1, evaluated on the code. The semaphore holds two permits. A wait that is not
  interrupted returns \<open>0\<close> and leaves one. A wait that one signal interrupts makes four
  native calls: the first is interrupted and sets \<^verbatim>\<open>errno\<close> to \<^verbatim>\<open>EINTR\<close>; the retry
  succeeds, but \<^verbatim>\<open>errno\<close> is still \<^verbatim>\<open>EINTR\<close>, so the loop goes on, takes the second
  permit as well, and blocks on the fourth call. It consumes two permits and does not
  return.
\<close>

theorem interrupted_wait_overruns:
  "tsk_semaphore_decrement Posix 7 (posix_world 2) =
     Returns 0 ((posix_world 1)\<lparr>trace := [Call (CallSemWait 7)]\<rparr>) \<and>
   tsk_semaphore_decrement Posix 7 ((posix_world 2)\<lparr>pending_signals := 1\<rparr>) =
     Blocked ((posix_world 0)\<lparr>errno := EINTR,
        trace := [Call (CallSemWait 7), Call (CallSemWait 7), Call (CallSemWait 7),
                  Call (CallSemWait 7)]\<rparr>)"
  by (simp add: tsk_semaphore_decrement_def decrement_epilogue_def sem_wait_loop.simps
      sem_wait_def record_call_def Let_def posix_world_def EINTR_def)

subsection \<open>Return values\<close>

text \<open>
  On a live semaphore signal always returns: \<open>0\<close> when the native increment succeeds,
  \<open>-1\<close> when the count is at its maximum.
\<close>

lemma increment_live:
  "h \<noteq> 0 \<Longrightarrow> sems w h = Some c \<Longrightarrow>
   \<exists>w'. tsk_semaphore_increment p h w =
     Returns (if count c < maxcount c then 0 else - 1) w'"
  by (cases p)
     (simp_all add: tsk_semaphore_increment_def increment_epilogue_def sem_post_def
        ReleaseSemaphore_def record_call_def Let_def)

text \<open>Whatever wait returns on a live semaphore is \<open>0\<close>.\<close>

lemma decrement_live:
  assumes h: "h \<noteq> 0" and live: "sems w h = Some c"
    and ret: "tsk_semaphore_decrement p h w = Returns r w'"
  shows "r = 0"
proof (cases p)
  case Windows
  with assms show ?thesis
    by (auto simp add: tsk_semaphore_decrement_def decrement_epilogue_def
        WaitForSingleObject_def record_call_def Let_def header_consts split: if_splits)
next
  case Posix
  show ?thesis
  proof (cases "sem_wait_loop h w")
    case (Returns r1 w1)
    from sem_wait_loop_live [OF Returns live] have "r1 = 0" .
    with ret Posix h Returns show ?thesis
      by (simp add: tsk_semaphore_decrement_def decrement_epilogue_def)
  next
    case (Blocked w1)
    with ret Posix h show ?thesis by (simp add: tsk_semaphore_decrement_def)
  next
    case (Fault w1)
    with ret Posix h show ?thesis by (simp add: tsk_semaphore_decrement_def)
  qed
qed

text \<open>
  On the Windows build a non-null handle that names no live object makes both native
  calls fail, and both operations return \<open>-1\<close>.
\<close>

lemma windows_dead_handle:
  "h \<noteq> 0 \<Longrightarrow> sems w h = None \<Longrightarrow>
   (\<exists>w'. tsk_semaphore_increment Windows h w = Returns (- 1) w') \<and>
   (\<exists>w'. tsk_semaphore_decrement Windows h w = Returns (- 1) w')"
  by (simp add: tsk_semaphore_increment_def increment_epilogue_def ReleaseSemaphore_def
      tsk_semaphore_decrement_def decrement_epilogue_def WaitForSingleObject_def
      record_call_def Let_def header_consts)

text \<open>
  Claim C10, evaluated on the code. The values themselves follow the claim: \<open>EINVAL\<close>
  for a null handle, \<open>-1\<close> for a native failure, and no value other than \<open>0\<close> from a
  wait on a live semaphore. But success does not always return \<open>0\<close>. On the POSIX
  build, a thread enters wait with \<^verbatim>\<open>errno\<close> equal to \<^verbatim>\<open>EINTR\<close> on a semaphore that
  holds three permits. The native decrement succeeds at once, and the call still hands
  nothing back: it takes the other two permits as well and blocks on the fourth
  \<^verbatim>\<open>sem_wait\<close>.
\<close>

theorem successful_wait_is_not_returned:
  "sem_wait 7 ((posix_world 3)\<lparr>errno := EINTR\<rparr>) =
     Returns 0 ((posix_world 2)\<lparr>errno := EINTR, trace := [Call (CallSemWait 7)]\<rparr>) \<and>
   tsk_semaphore_decrement Posix 7 ((posix_world 3)\<lparr>errno := EINTR\<rparr>) =
     Blocked ((posix_world 0)\<lparr>errno := EINTR,
        trace := [Call (CallSemWait 7), Call (CallSemWait 7), Call (CallSemWait 7),
                  Call (CallSemWait 7)]\<rparr>) \<and>
   result_of (tsk_semaphore_decrement Posix 7 ((posix_world 3)\<lparr>errno := EINTR\<rparr>)) \<noteq> Some 0"
  by (simp add: tsk_semaphore_decrement_def decrement_epilogue_def sem_wait_loop.simps
      sem_wait_def record_call_def Let_def posix_world_def EINTR_def)

subsection \<open>Counting permits\<close>

text \<open>
  A successful create leaves a semaphore with no permits and room for \<open>0x7FFFFFFF\<close>, and
  does not touch \<^verbatim>\<open>errno\<close>. A signal below the maximum adds one permit; a wait on a
  positive count takes one; a wait on a zero count blocks.
\<close>

lemma create_success:
  assumes "tsk_semaphore_create p w = Returns h w1" and "h \<noteq> 0"
  shows "sems w1 h = Some \<lparr>count = 0, maxcount = 0x7FFFFFFF\<rparr>
         \<and> errno w1 = errno w \<and> pending_signals w1 = pending_signals w"
proof (cases p)
  case Windows
  with assms show ?thesis
    by (auto simp add: tsk_semaphore_create_def create_epilogue_def CreateSemaphore_def
        collaborator_defs Let_def split: if_splits)
next
  case Posix
  with assms show ?thesis
    by (auto simp add: tsk_semaphore_create_def create_epilogue_def sem_init_def
        collaborator_defs Let_def header_consts split: if_splits option.splits)
qed

lemma increment_step:
  assumes "h \<noteq> 0" and "sems w h = Some c" and "count c < maxcount c"
  shows "\<exists>w1. tsk_semaphore_increment p h w = Returns 0 w1
           \<and> sems w1 h = Some (c\<lparr>count := count c + 1\<rparr>)
           \<and> errno w1 = errno w \<and> pending_signals w1 = pending_signals w"
  using assms
  by (cases p)
     (simp_all add: tsk_semaphore_increment_def increment_epilogue_def sem_post_def
        ReleaseSemaphore_def record_call_def Let_def)

lemma increment_full:
  assumes "h \<noteq> 0" and "sems w h = Some c" and "maxcount c \<le> count c"
  shows "\<exists>w1. tsk_semaphore_increment p h w = Returns (- 1) w1"
  using assms
  by (cases p)
     (simp_all add: tsk_semaphore_increment_def increment_epilogue_def sem_post_def
        ReleaseSemaphore_def record_call_def Let_def)

lemma decrement_step:
  assumes "h \<noteq> 0" and "sems w h = Some c" and "0 < count c"
    and "p = Posix \<longrightarrow> errno w \<noteq> EINTR \<and> pending_signals w = 0"
  shows "\<exists>w1. tsk_semaphore_decrement p h w = Returns 0 w1
           \<and> sems w1 h = Some (c\<lparr>count := count c - 1\<rparr>)
           \<and> errno w1 = errno w \<and> pending_signals w1 = pending_signals w"
proof (cases p)
  case Windows
  with assms show ?thesis
    by (simp add: tsk_semaphore_decrement_def decrement_epilogue_def WaitForSingleObject_def
        record_call_def Let_def)
next
  case Posix
  with assms have "sem_wait_loop h w =
      Returns 0 ((record_call (CallSemWait h) w)
        \<lparr>sems := (sems w)(h \<mapsto> c\<lparr>count := count c - 1\<rparr>)\<rparr>)"
    by (subst sem_wait_loop.simps) (simp add: sem_wait_def record_call_def Let_def)
  with Posix assms show ?thesis
    by (simp add: tsk_semaphore_decrement_def decrement_epilogue_def record_call_def)
qed

lemma decrement_blocks:
  assumes "h \<noteq> 0" and "sems w h = Some c" and "count c = 0"
    and "p = Posix \<longrightarrow> pending_signals w = 0"
  shows "\<exists>w1. tsk_semaphore_decrement p h w = Blocked w1"
proof (cases p)
  case Windows
  with assms show ?thesis
    by (simp add: tsk_semaphore_decrement_def WaitForSingleObject_def record_call_def Let_def)
next
  case Posix
  with assms have "sem_wait_loop h w = Blocked (record_call (CallSemWait h) w)"
    by (subst sem_wait_loop.simps) (simp add: sem_wait_def record_call_def Let_def)
  with Posix assms show ?thesis
    by (simp add: tsk_semaphore_decrement_def)
qed

lemma signals_succeed:
  "h \<noteq> 0 \<Longrightarrow> sems w h = Some c \<Longrightarrow> count c + n \<le> maxcount c \<Longrightarrow>
   \<exists>w'. repeat_call (tsk_semaphore_increment p h) n w = Returns (replicate n 0) w'
       \<and> sems w' h = Some (c\<lparr>count := count c + n\<rparr>)
       \<and> errno w' = errno w \<and> pending_signals w' = pending_signals w"
proof (induction n arbitrary: w c)
  case 0
  then show ?case by simp
next
  case (Suc n)
  from Suc.prems have "count c < maxcount c" by simp
  from increment_step [OF Suc.prems(1,2) this, of p]
  obtain w1 where step: "tsk_semaphore_increment p h w = Returns 0 w1"
    and live: "sems w1 h = Some (c\<lparr>count := count c + 1\<rparr>)"
    and same: "errno w1 = errno w" "pending_signals w1 = pending_signals w" by blast
  from Suc.prems have room: "count (c\<lparr>count := count c + 1\<rparr>) + n \<le> maxcount (c\<lparr>count := count c + 1\<rparr>)"
    by simp
  from Suc.IH [OF Suc.prems(1) live room]
  obtain w' where rest: "repeat_call (tsk_semaphore_increment p h) n w1 = Returns (replicate n 0) w'"
    and live': "sems w' h = Some (c\<lparr>count := count c + 1 + n\<rparr>)"
    and same': "errno w' = errno w1" "pending_signals w' = pending_signals w1" by auto
  from step rest live' same same' show ?case by simp
qed

lemma waits_succeed:
  "h \<noteq> 0 \<Longrightarrow> sems w h = Some c \<Longrightarrow> n \<le> count c \<Longrightarrow>
   p = Posix \<longrightarrow> errno w \<noteq> EINTR \<and> pending_signals w = 0 \<Longrightarrow>
   \<exists>w'. repeat_call (tsk_semaphore_decrement p h) n w = Returns (replicate n 0) w'
       \<and> sems w' h = Some (c\<lparr>count := count c - n\<rparr>)
       \<and> errno w' = errno w \<and> pending_signals w' = pending_signals w"
proof (induction n arbitrary: w c)
  case 0
  then show ?case by simp
next
  case (Suc n)
  from Suc.prems have "0 < count c" by simp
  from decrement_step [OF Suc.prems(1,2) this Suc.prems(4)]
  obtain w1 where step: "tsk_semaphore_decrement p h w = Returns 0 w1"
    and live: "sems w1 h = Some (c\<lparr>count := count c - 1\<rparr>)"
    and same: "errno w1 = errno w" "pending_signals w1 = pending_signals w" by blast
  from Suc.prems have room: "n \<le> count (c\<lparr>count := count c - 1\<rparr>)"
    by simp
  from Suc.prems(4) same
  have quiet: "p = Posix \<longrightarrow> errno w1 \<noteq> EINTR \<and> pending_signals w1 = 0" by simp
  from Suc.IH [OF Suc.prems(1) live room quiet]
  obtain w' where rest: "repeat_call (tsk_semaphore_decrement p h) n w1 = Returns (replicate n 0) w'"
    and live': "sems w' h = Some (c\<lparr>count := count c - 1 - n\<rparr>)"
    and same': "errno w' = errno w1" "pending_signals w' = pending_signals w1" by auto
  from step rest live' same same' show ?case by simp
qed

text \<open>
  Once the requested number of signals exceeds the room left below the maximum, they
  cannot all return \<open>0\<close>.
\<close>

lemma signals_overflow:
  "h \<noteq> 0 \<Longrightarrow> sems w h = Some c \<Longrightarrow> maxcount c < count c + n \<Longrightarrow>
   count c \<le> maxcount c \<Longrightarrow>
   repeat_call (tsk_semaphore_increment p h) n w \<noteq> Returns (replicate n 0) w'"
proof (induction n arbitrary: w c)
  case 0
  then show ?case by simp
next
  case (Suc n)
  show ?case
  proof (cases "count c < maxcount c")
    case True
    from increment_step [OF Suc.prems(1,2) True, of p]
    obtain w1 where step: "tsk_semaphore_increment p h w = Returns 0 w1"
      and live: "sems w1 h = Some (c\<lparr>count := count c + 1\<rparr>)" by blast
    from Suc.prems have "maxcount (c\<lparr>count := count c + 1\<rparr>) < count (c\<lparr>count := count c + 1\<rparr>) + n"
      by simp
    moreover from True have "count (c\<lparr>count := count c + 1\<rparr>) \<le> maxcount (c\<lparr>count := count c + 1\<rparr>)"
      by simp
    ultimately have "repeat_call (tsk_semaphore_increment p h) n w1 \<noteq> Returns (replicate n 0) w'"
      by (rule Suc.IH [OF Suc.prems(1) live])
    with step show ?thesis
      by (cases "repeat_call (tsk_semaphore_increment p h) n w1") auto
  next
    case False
    then have "maxcount c \<le> count c" by simp
    from increment_full [OF Suc.prems(1,2) this, of p]
    obtain w1 where "tsk_semaphore_increment p h w = Returns (- 1) w1" by blast
    then show ?thesis
      by (cases "repeat_call (tsk_semaphore_increment p h) n w1") auto
  qed
qed

text \<open>
  Claim C7 as stated does not hold for every \<open>N\<close>: the maximum that create asks for is
  \<open>0x7FFFFFFF\<close>, and a signal on a full semaphore is refused. On the Windows build,
  after create and \<open>2147483647\<close> signals that all return \<open>0\<close>, the next signal returns
  \<open>-1\<close>.
\<close>

theorem signals_beyond_maximum_counterexample:
  "result_of (tsk_semaphore_create Windows idle_world) = Some 7 \<and>
   result_of (repeat_call (tsk_semaphore_increment Windows 7) 2147483647
      (world_of (tsk_semaphore_create Windows idle_world))) = Some (replicate 2147483647 0) \<and>
   result_of (tsk_semaphore_increment Windows 7
      (world_of (repeat_call (tsk_semaphore_increment Windows 7) 2147483647
         (world_of (tsk_semaphore_create Windows idle_world))))) = Some (- 1)"
proof -
  let ?w1 = "idle_world\<lparr>trace := [Call (CallCreateSemaphore 0 0x7FFFFFFF)],
                           sems := [7 \<mapsto> \<lparr>count = 0, maxcount = 0x7FFFFFFF\<rparr>]\<rparr>"
  let ?c = "\<lparr>count = 0, maxcount = 0x7FFFFFFF\<rparr>"
  have made: "tsk_semaphore_create Windows idle_world = Returns 7 ?w1"
    by (simp add: tsk_semaphore_create_def create_epilogue_def CreateSemaphore_def
        collaborator_defs Let_def scenario_defs)
  have fresh: "sems ?w1 7 = Some ?c" by simp
  have h: "(7::nat) \<noteq> 0" by simp
  have "count ?c + 2147483647 \<le> maxcount ?c" by simp
  from signals_succeed [OF h fresh this, of Windows]
  obtain w2 where up: "repeat_call (tsk_semaphore_increment Windows 7) 2147483647 ?w1
        = Returns (replicate 2147483647 0) w2"
    and full: "sems w2 7 = Some (?c\<lparr>count := count ?c + 2147483647\<rparr>)" by blast
  have "maxcount (?c\<lparr>count := count ?c + 2147483647\<rparr>)
      \<le> count (?c\<lparr>count := count ?c + 2147483647\<rparr>)"
    by simp
  from increment_full [OF h full this, of Windows]
  obtain w3 where "tsk_semaphore_increment Windows 7 w2 = Returns (- 1) w3" by blast
  with made up show ?thesis by simp
qed

text \<open>
  Claim C7, amended. After a successful create the semaphore's count is \<open>0\<close> and its
  maximum is \<open>0x7FFFFFFF\<close>. For every \<open>N\<close> up to that maximum, \<open>N\<close> signals in a row all
  return \<open>0\<close> and bring the count to \<open>N\<close>; \<open>N\<close> waits in a row then all return \<open>0\<close> and
  bring it back to \<open>0\<close>; and the wait after those blocks. On the POSIX build this is
  stated for a thread whose \<^verbatim>\<open>errno\<close> is not \<^verbatim>\<open>EINTR\<close> and that no signal interrupts.
\<close>

theorem fresh_semaphore_counts_permits:
  assumes "tsk_semaphore_create p w = Returns h w1" and "h \<noteq> 0"
    and "n \<le> 0x7FFFFFFF"
    and "p = Posix \<longrightarrow> errno w \<noteq> EINTR \<and> pending_signals w = 0"
  shows "sems w1 h = Some \<lparr>count = 0, maxcount = 0x7FFFFFFF\<rparr> \<and>
    (\<exists>w2 w3 w4.
        repeat_call (tsk_semaphore_increment p h) n w1 = Returns (replicate n 0) w2
      \<and> sems w2 h = Some \<lparr>count = n, maxcount = 0x7FFFFFFF\<rparr>
      \<and> repeat_call (tsk_semaphore_decrement p h) n w2 = Returns (replicate n 0) w3
      \<and> sems w3 h = Some \<lparr>count = 0, maxcount = 0x7FFFFFFF\<rparr>
      \<and> tsk_semaphore_decrement p h w3 = Blocked w4)"
proof -
  let ?c = "\<lparr>count = 0, maxcount = 0x7FFFFFFF\<rparr>"
  from create_success [OF assms(1,2)]
  have fresh: "sems w1 h = Some ?c"
    and same1: "errno w1 = errno w" "pending_signals w1 = pending_signals w" by simp_all
  from assms(3) have "count ?c + n \<le> maxcount ?c" by simp
  from signals_succeed [OF assms(2) fresh this, of p]
  obtain w2 where up: "repeat_call (tsk_semaphore_increment p h) n w1 = Returns (replicate n 0) w2"
    and full: "sems w2 h = Some \<lparr>count = n, maxcount = 0x7FFFFFFF\<rparr>"
    and same2: "errno w2 = errno w1" "pending_signals w2 = pending_signals w1" by auto
  from assms(4) same1 same2
  have quiet2: "p = Posix \<longrightarrow> errno w2 \<noteq> EINTR \<and> pending_signals w2 = 0" by simp
  have "n \<le> count \<lparr>count = n, maxcount = 0x7FFFFFFF\<rparr>" by simp
  from waits_succeed [OF assms(2) full this quiet2]
  obtain w3 where down: "repeat_call (tsk_semaphore_decrement p h) n w2 = Returns (replicate n 0) w3"
    and drained: "sems w3 h = Some ?c"
    and same3: "errno w3 = errno w2" "pending_signals w3 = pending_signals w2" by auto
  from quiet2 same3 have quiet3: "p = Posix \<longrightarrow> pending_signals w3 = 0" by simp
  have "count ?c = 0" by simp
  from decrement_blocks [OF assms(2) drained this quiet3]
  obtain w4 where "tsk_semaphore_decrement p h w3 = Blocked w4" by blast
  with fresh up full down drained show ?thesis by blast
qed

theorem fresh_semaphore_counts_permits_witness:
  "tsk_semaphore_create Posix idle_world =
     Returns 7
       (idle_world\<lparr>trace := [Call (CallTskCalloc 1), Call (CallSemInit 7 PTHREAD_PROCESS_PRIVATE 0)],
                    heap := {7},
                    sems := [7 \<mapsto> \<lparr>count = 0, maxcount = 0x7FFFFFFF\<rparr>]\<rparr>) \<and>
   errno idle_world \<noteq> EINTR \<and> pending_signals idle_world = 0 \<and>
   (\<exists>w2 w3 w4.
        repeat_call (tsk_semaphore_increment Posix 7) 2
          (world_of (tsk_semaphore_create Posix idle_world)) = Returns [0, 0] w2
      \<and> sems w2 7 = Some \<lparr>count = 2, maxcount = 0x7FFFFFFF\<rparr>
      \<and> repeat_call (tsk_semaphore_decrement Posix 7) 2 w2 = Returns [0, 0] w3
      \<and> sems w3 7 = Some \<lparr>count = 0, maxcount = 0x7FFFFFFF\<rparr>
      \<and> tsk_semaphore_decrement Posix 7 w3 = Blocked w4)"
proof -
  let ?w1 = "idle_world\<lparr>trace := [Call (CallTskCalloc 1), Call (CallSemInit 7 PTHREAD_PROCESS_PRIVATE 0)],
                           heap := {7},
                           sems := [7 \<mapsto> \<lparr>count = 0, maxcount = 0x7FFFFFFF\<rparr>]\<rparr>"
  have made: "tsk_semaphore_create Posix idle_world = Returns 7 ?w1"
    by (simp add: tsk_semaphore_create_def create_epilogue_def sem_init_def collaborator_defs
        Let_def header_consts scenario_defs)
  have h: "(7::nat) \<noteq> 0" and n: "(2::nat) \<le> 0x7FFFFFFF" by simp_all
  have quiet: "Posix = Posix \<longrightarrow> errno idle_world \<noteq> EINTR \<and> pending_signals idle_world = 0"
    by (simp add: idle_world_def EINTR_def)
  have two: "replicate 2 (0::int) = [0, 0]"
    by (simp add: numeral_2_eq_2)
  from fresh_semaphore_counts_permits [OF made h n quiet] made quiet two
  show ?thesis by simp
qed

end
